theory Spec2Isabelle
  imports Main "HOL-Library.Word" "HOL-Library.AList" "HOL-Library.Sublist"
begin

section \<open>Python values used by the agent worker\<close>

text \<open>
  The worker (\<^verbatim>\<open>packages/backend/agent-worker/agent.py\<close>) passes around values
  decoded from JSON and dictionaries with literal keys. They are modelled by one
  datatype. A Python \<^verbatim>\<open>int\<close> is unbounded (\<^typ>\<open>int\<close>), a \<^verbatim>\<open>float\<close> is its IEEE-754
  binary64 bit pattern, a \<^verbatim>\<open>str\<close> is a \<^typ>\<open>string\<close>, and a \<^verbatim>\<open>dict\<close> is an association
  list in insertion order with distinct keys (the first binding of a key is the one
  looked up).
\<close>

datatype json =
    JNull
  | JBool bool
  | JInt int
  | JFloat "64 word"
  | JStr string
  | JArr "json list"
  | JObj "(string \<times> json) list"

text \<open>Exceptions are values; every \<^verbatim>\<open>raise\<close> is the left injection of a sum.\<close>

datatype py_error =
    AttributeError
  | TypeError
  | KeyError
  | IndexError
  | JSONDecodeError
  | TransportFailure
  | HTTPStatusError

definition try_bind :: "py_error + 'a \<Rightarrow> ('a \<Rightarrow> py_error + 'b) \<Rightarrow> py_error + 'b" where
  "try_bind m f = (case m of Inl e \<Rightarrow> Inl e | Inr x \<Rightarrow> f x)"

text \<open>
  Truth value testing (\<^verbatim>\<open>if x\<close>, \<^verbatim>\<open>x or y\<close>, \<^verbatim>\<open>not x\<close>): \<^verbatim>\<open>None\<close>, \<^verbatim>\<open>False\<close>, zero and
  empty containers are false. A float is false when it is \<open>+0.0\<close> or \<open>-0.0\<close>.
\<close>

definition py_truthy :: "json \<Rightarrow> bool" where
  "py_truthy v =
     (case v of
        JNull \<Rightarrow> False
      | JBool b \<Rightarrow> b
      | JInt i \<Rightarrow> i \<noteq> 0
      | JFloat w \<Rightarrow> w \<noteq> 0 \<and> w \<noteq> 0x8000000000000000
      | JStr s \<Rightarrow> s \<noteq> []
      | JArr xs \<Rightarrow> xs \<noteq> []
      | JObj kvs \<Rightarrow> kvs \<noteq> [])"

definition py_or :: "json \<Rightarrow> json \<Rightarrow> json" where
  "py_or a b = (if py_truthy a then a else b)"

text \<open>\<^verbatim>\<open>x or d\<close> for an optional integer and an optional string argument of a tool.\<close>

definition or_int :: "int option \<Rightarrow> int \<Rightarrow> int" where
  "or_int x d = (case x of None \<Rightarrow> d | Some v \<Rightarrow> if v = 0 then d else v)"

definition or_str :: "string option \<Rightarrow> string \<Rightarrow> string" where
  "or_str x d = (case x of None \<Rightarrow> d | Some v \<Rightarrow> if v = [] then d else v)"

definition opt_str :: "string option \<Rightarrow> json" where
  "opt_str x = (case x of None \<Rightarrow> JNull | Some s \<Rightarrow> JStr s)"

text \<open>\<^verbatim>\<open>d.get(k, default)\<close>: only a dictionary has the method.\<close>

definition dict_get :: "json \<Rightarrow> string \<Rightarrow> json \<Rightarrow> py_error + json" where
  "dict_get d k dflt =
     (case d of
        JObj kvs \<Rightarrow> (case map_of kvs k of None \<Rightarrow> Inr dflt | Some v \<Rightarrow> Inr v)
      | _ \<Rightarrow> Inl AttributeError)"

text \<open>\<^verbatim>\<open>v[k]\<close> with a string key \<open>k\<close>.\<close>

definition subscript :: "json \<Rightarrow> string \<Rightarrow> py_error + json" where
  "subscript v k =
     (case v of
        JObj kvs \<Rightarrow> (case map_of kvs k of None \<Rightarrow> Inl KeyError | Some x \<Rightarrow> Inr x)
      | _ \<Rightarrow> Inl TypeError)"

text \<open>
  \<^verbatim>\<open>for x in v[:n]\<close>: the items the loop visits. A list yields its first \<open>n\<close> elements, a
  string its first \<open>n\<close> characters as one-character strings. No other value can be
  sliced (for a dictionary the kind of exception depends on the version of Python).
\<close>

definition slice_items :: "nat \<Rightarrow> json \<Rightarrow> py_error + json list" where
  "slice_items n v =
     (case v of
        JArr xs \<Rightarrow> Inr (take n xs)
      | JStr s \<Rightarrow> Inr (map (\<lambda>c. JStr [c]) (take n s))
      | _ \<Rightarrow> Inl TypeError)"

subsection \<open>Formatting\<close>

text \<open>\<^verbatim>\<open>str(n)\<close> for an integer: decimal digits, with a leading minus sign.\<close>

fun digits :: "nat \<Rightarrow> string" where
  "digits n =
     (if n < 10 then [''0123456789'' ! n]
      else digits (n div 10) @ [''0123456789'' ! (n mod 10)])"

definition str_int :: "int \<Rightarrow> string" where
  "str_int i = (if i < 0 then ''-'' @ digits (nat (- i)) else digits (nat i))"

text \<open>\<^verbatim>\<open>format(n, ",")\<close>: the digits in groups of three from the right.\<close>

fun commas :: "string \<Rightarrow> string" where
  "commas ds =
     (if length ds \<le> 3 then ds
      else commas (take (length ds - 3) ds) @ '','' @ drop (length ds - 3) ds)"

definition format_thousands :: "int \<Rightarrow> string" where
  "format_thousands i =
     (if i < 0 then ''-'' @ commas (digits (nat (- i))) else commas (digits (nat i)))"

text \<open>\<^verbatim>\<open>sep.join(items)\<close> on strings.\<close>

fun join :: "string \<Rightarrow> string list \<Rightarrow> string" where
  "join sep [] = []"
| "join sep [x] = x"
| "join sep (x # y # ys) = x @ sep @ join sep (y # ys)"

text \<open>
  The parts of the Python library that are not reimplemented here are parameters:
  \<^verbatim>\<open>repr\<close> of a float, a list or a dictionary, \<^verbatim>\<open>format(v, spec)\<close> of a value that is
  not an integer, \<^verbatim>\<open>json.dumps\<close> and \<^verbatim>\<open>json.loads\<close>.
\<close>

record pylib =
  py_repr :: "json \<Rightarrow> string"
  py_format :: "json \<Rightarrow> string \<Rightarrow> py_error + string"
  json_dumps :: "json \<Rightarrow> string"
  json_loads :: "string \<Rightarrow> py_error + json"

text \<open>A replacement field \<^verbatim>\<open>{v}\<close> of an f-string: \<^verbatim>\<open>format(v, "")\<close>, which is \<^verbatim>\<open>str(v)\<close>.\<close>

definition py_str :: "pylib \<Rightarrow> json \<Rightarrow> string" where
  "py_str L v =
     (case v of
        JNull \<Rightarrow> ''None''
      | JBool b \<Rightarrow> (if b then ''True'' else ''False'')
      | JInt i \<Rightarrow> str_int i
      | JStr s \<Rightarrow> s
      | _ \<Rightarrow> py_repr L v)"

text \<open>A replacement field \<^verbatim>\<open>{v:,}\<close>: \<^verbatim>\<open>format(v, ",")\<close>.\<close>

definition format_comma :: "pylib \<Rightarrow> json \<Rightarrow> py_error + string" where
  "format_comma L v =
     (case v of
        JInt i \<Rightarrow> Inr (format_thousands i)
      | _ \<Rightarrow> py_format L v '','')"

text \<open>\<^verbatim>\<open>", ".join(xs)\<close> raises \<^verbatim>\<open>TypeError\<close> unless every item is a string.\<close>

fun str_items :: "json list \<Rightarrow> py_error + string list" where
  "str_items [] = Inr []"
| "str_items (JStr s # vs) = try_bind (str_items vs) (\<lambda>ss. Inr (s # ss))"
| "str_items (_ # vs) = Inl TypeError"

section \<open>Memory client\<close>

text \<open>
  \<^verbatim>\<open>ConvexClient\<close> posts JSON to the memory service with \<^verbatim>\<open>httpx\<close>. The service and the
  network are the environment: \<open>respond\<close> gives, for the requests sent so far and the
  request being sent, what \<^verbatim>\<open>httpx\<close> observes. \<open>NoResponse\<close> is a transport failure
  (connection error, timeout): \<^verbatim>\<open>post\<close> raises. Otherwise there is a status code and a
  body, which is \<open>None\<close> when it is not valid JSON, so that \<^verbatim>\<open>response.json()\<close> raises.
  The world also records every request sent.
\<close>

record http_request =
  url :: string
  payload :: json

datatype http_outcome = NoResponse | Response nat "json option"

record world =
  respond :: "http_request list \<Rightarrow> http_request \<Rightarrow> http_outcome"
  sent :: "http_request list"

record convex_client =
  base_url :: string

definition post :: "world \<Rightarrow> http_request \<Rightarrow> (py_error + nat \<times> json option) \<times> world" where
  "post w req =
     ((case respond w (sent w) req of
         NoResponse \<Rightarrow> Inl TransportFailure
       | Response status body \<Rightarrow> Inr (status, body)),
      w\<lparr>sent := sent w @ [req]\<rparr>)"

text \<open>\<^verbatim>\<open>response.raise_for_status()\<close> raises unless the status code is 2xx.\<close>

definition raise_for_status :: "nat \<times> json option \<Rightarrow> py_error + unit" where
  "raise_for_status r =
     (if 200 \<le> fst r \<and> fst r \<le> 299 then Inr () else Inl HTTPStatusError)"

definition response_json :: "nat \<times> json option \<Rightarrow> py_error + json" where
  "response_json r = (case snd r of None \<Rightarrow> Inl JSONDecodeError | Some j \<Rightarrow> Inr j)"

text \<open>
  The statements of a \<^verbatim>\<open>try\<close> block shared by the four operations, after the request:
  \<^verbatim>\<open>response.raise_for_status()\<close>, then \<^verbatim>\<open>response.json()\<close>.
\<close>

definition checked_json :: "py_error + nat \<times> json option \<Rightarrow> py_error + json" where
  "checked_json r =
     try_bind r (\<lambda>resp. try_bind (raise_for_status resp) (\<lambda>_. response_json resp))"

definition empty_recall :: json where
  "empty_recall =
     JObj [(''memories'', JArr []), (''facts'', JArr []),
           (''propertyInteractions'', JArr []), (''suburbPreferences'', JArr [])]"

definition recall_context ::
  "convex_client \<Rightarrow> world \<Rightarrow> json \<Rightarrow> string \<Rightarrow> int \<Rightarrow> json \<times> world" where
  "recall_context C w user_id query limit =
     (let (r, w') = post w
            \<lparr>url = base_url C @ ''/api/cortex/recall'',
             payload = JObj [(''userId'', user_id), (''query'', JStr query),
                             (''limit'', JInt limit)]\<rparr>
      in (case checked_json r of
            Inl e \<Rightarrow> empty_recall
          | Inr j \<Rightarrow> j,
          w'))"

text \<open>
  \<^verbatim>\<open>remember_conversation\<close> and \<^verbatim>\<open>store_preference\<close> end with the same statements:
  \<^verbatim>\<open>response.raise_for_status()\<close>, \<^verbatim>\<open>return response.json().get("success", False)\<close>, and
  the handler \<^verbatim>\<open>except Exception: return False\<close>. The value returned is whatever the
  service put under \<^verbatim>\<open>"success"\<close>.
\<close>

definition success_flag :: "py_error + nat \<times> json option \<Rightarrow> json" where
  "success_flag r =
     (case try_bind (checked_json r) (\<lambda>j. dict_get j ''success'' (JBool False)) of
        Inl e \<Rightarrow> JBool False
      | Inr v \<Rightarrow> v)"

definition remember_conversation ::
  "convex_client \<Rightarrow> world \<Rightarrow> json \<Rightarrow> string \<Rightarrow> string \<Rightarrow> json \<Rightarrow> json \<Rightarrow> json \<times> world" where
  "remember_conversation C w user_id user_query agent_response property_id property_context =
     (let (r, w') = post w
            \<lparr>url = base_url C @ ''/api/cortex/remember'',
             payload = JObj [(''userId'', user_id), (''userQuery'', JStr user_query),
                             (''agentResponse'', JStr agent_response),
                             (''propertyId'', property_id),
                             (''propertyContext'', property_context)]\<rparr>
      in (success_flag r, w'))"

definition store_preference ::
  "convex_client \<Rightarrow> world \<Rightarrow> json \<Rightarrow> string \<Rightarrow> string \<Rightarrow> int \<Rightarrow> json \<Rightarrow> json \<times> world" where
  "store_preference C w user_id category preference confidence metadata =
     (let (r, w') = post w
            \<lparr>url = base_url C @ ''/api/cortex/store-preference'',
             payload = JObj [(''userId'', user_id), (''category'', JStr category),
                             (''preference'', JStr preference),
                             (''confidence'', JInt confidence),
                             (''metadata'', metadata)]\<rparr>
      in (success_flag r, w'))"

section \<open>The agent\<close>

record chat_message =
  role :: string
  text_content :: "string option"

type_synonym chat_ctx = "chat_message list"

text \<open>\<^verbatim>\<open>ChatContext.add_message(role=..., content=...)\<close> appends one message.\<close>

definition add_message :: "string \<Rightarrow> string \<Rightarrow> chat_ctx \<Rightarrow> chat_ctx" where
  "add_message r c ctx = ctx @ [\<lparr>role = r, text_content = Some c\<rparr>]"

record agent =
  convex :: convex_client
  user_id :: json

subsection \<open>search_properties\<close>

text \<open>The list \<^verbatim>\<open>results\<close> of two dictionaries built from the arguments.\<close>

definition search_results ::
  "string \<Rightarrow> int option \<Rightarrow> int option \<Rightarrow> string option \<Rightarrow> json list" where
  "search_results location budget_max bedrooms property_type =
     [JObj [(''id'', JStr ''prop-001''),
            (''address'', JStr (str_int (or_int bedrooms 3) @ '' Bedroom ''
                                 @ or_str property_type ''House'' @ '' in '' @ location)),
            (''price'', JInt (or_int budget_max 1500000)),
            (''bedrooms'', JInt (or_int bedrooms 3)),
            (''bathrooms'', JInt 2),
            (''description'', JStr ''Modern property with great natural light'')],
      JObj [(''id'', JStr ''prop-002''),
            (''address'', JStr (str_int (or_int bedrooms 2) @ '' Bedroom Apartment in ''
                                 @ location)),
            (''price'', JInt (or_int budget_max 1000000 - 200000)),
            (''bedrooms'', JInt (or_int bedrooms 2)),
            (''bathrooms'', JInt 1),
            (''description'', JStr ''Recently renovated with new kitchen'')]]"

text \<open>
  The loop \<^verbatim>\<open>for prop in results: await self.convex.remember_conversation(...)\<close>. The
  result of each call is dropped; \<^verbatim>\<open>prop["id"]\<close> raises when the key is missing.
\<close>

fun remember_results ::
  "pylib \<Rightarrow> agent \<Rightarrow> string \<Rightarrow> json list \<Rightarrow> json list \<Rightarrow> world \<Rightarrow> py_error option \<times> world" where
  "remember_results L A location results [] w = (None, w)"
| "remember_results L A location results (prop # props) w =
     (case subscript prop ''id'' of
        Inl e \<Rightarrow> (Some e, w)
      | Inr pid \<Rightarrow>
          remember_results L A location results props
            (snd (remember_conversation (convex A) w (user_id A)
                    (''Search for properties in '' @ location)
                    (json_dumps L (JObj [(''results'', JArr results)]))
                    pid prop)))"

text \<open>
  The \<^verbatim>\<open>return\<close> statement of \<^verbatim>\<open>search_properties\<close> is the single logical line
  \<^verbatim>\<open>return f"Found {len(results)} properties in {location}. "\<close>. The two string literals
  on the following lines are not inside parentheses, so they are expression statements
  after the \<^verbatim>\<open>return\<close> and are never evaluated.
\<close>

definition search_properties ::
  "pylib \<Rightarrow> agent \<Rightarrow> world \<Rightarrow> string \<Rightarrow> int option \<Rightarrow> int option \<Rightarrow> int option \<Rightarrow>
   string option \<Rightarrow> (py_error + string) \<times> world" where
  "search_properties L A w location budget_min budget_max bedrooms property_type =
     (let results = search_results location budget_max bedrooms property_type
      in case remember_results L A location results results w of
           (Some e, w') \<Rightarrow> (Inl e, w')
         | (None, w') \<Rightarrow>
             (Inr (''Found '' @ str_int (int (length results)) @ '' properties in ''
                   @ location @ ''. ''), w'))"

subsection \<open>on_user_turn_completed\<close>

text \<open>
  The hook mutates \<^verbatim>\<open>turn_ctx\<close> and may raise part-way (a missing key, a value of the
  wrong type); what was added before stays added. A step therefore returns the context
  together with the exception raised, if any.
\<close>

definition and_then ::
  "chat_ctx \<times> py_error option \<Rightarrow> (chat_ctx \<Rightarrow> chat_ctx \<times> py_error option) \<Rightarrow>
   chat_ctx \<times> py_error option" where
  "and_then r f = (case r of (ctx, Some e) \<Rightarrow> (ctx, Some e) | (ctx, None) \<Rightarrow> f ctx)"

text \<open>One element of the list comprehension over \<^verbatim>\<open>prefs\<close>.\<close>

definition suburb_entry :: "pylib \<Rightarrow> json \<Rightarrow> py_error + string" where
  "suburb_entry L p =
     try_bind (subscript p ''suburbName'') (\<lambda>name.
     try_bind (subscript p ''preferenceScore'') (\<lambda>score.
       Inr (py_str L name @ '' (score: '' @ py_str L score @ '')'')))"

fun suburb_entries :: "pylib \<Rightarrow> json list \<Rightarrow> py_error + string list" where
  "suburb_entries L [] = Inr []"
| "suburb_entries L (p # ps) =
     try_bind (suburb_entry L p) (\<lambda>s.
     try_bind (suburb_entries L ps) (\<lambda>ss. Inr (s # ss)))"

definition inject_suburb_preferences ::
  "pylib \<Rightarrow> json \<Rightarrow> chat_ctx \<Rightarrow> chat_ctx \<times> py_error option" where
  "inject_suburb_preferences L context turn_ctx =
     (case dict_get context ''suburbPreferences'' JNull of
        Inl e \<Rightarrow> (turn_ctx, Some e)
      | Inr v \<Rightarrow>
          if py_truthy v then
            (case try_bind (try_bind (subscript context ''suburbPreferences'') (slice_items 5))
                    (suburb_entries L) of
               Inl e \<Rightarrow> (turn_ctx, Some e)
             | Inr entries \<Rightarrow>
                 (add_message ''assistant''
                    (''User's suburb preferences: '' @ join '', '' entries) turn_ctx, None))
          else (turn_ctx, None))"

definition fact_text :: "pylib \<Rightarrow> json \<Rightarrow> py_error + string" where
  "fact_text L fct =
     try_bind (subscript fct ''fact'') (\<lambda>f.
     try_bind (subscript fct ''confidence'') (\<lambda>c.
       Inr (''Remembered: '' @ py_str L f @ '' (confidence: '' @ py_str L c @ ''%)'')))"

fun add_facts :: "pylib \<Rightarrow> json list \<Rightarrow> chat_ctx \<Rightarrow> chat_ctx \<times> py_error option" where
  "add_facts L [] ctx = (ctx, None)"
| "add_facts L (fct # facts) ctx =
     (case fact_text L fct of
        Inl e \<Rightarrow> (ctx, Some e)
      | Inr c \<Rightarrow> add_facts L facts (add_message ''assistant'' c ctx))"

definition inject_facts :: "pylib \<Rightarrow> json \<Rightarrow> chat_ctx \<Rightarrow> chat_ctx \<times> py_error option" where
  "inject_facts L context turn_ctx =
     (case dict_get context ''facts'' JNull of
        Inl e \<Rightarrow> (turn_ctx, Some e)
      | Inr v \<Rightarrow>
          if py_truthy v then
            (case try_bind (subscript context ''facts'') (slice_items 5) of
               Inl e \<Rightarrow> (turn_ctx, Some e)
             | Inr facts \<Rightarrow> add_facts L facts turn_ctx)
          else (turn_ctx, None))"

definition interaction_text :: "pylib \<Rightarrow> json \<Rightarrow> py_error + string" where
  "interaction_text L interaction =
     try_bind (subscript interaction ''propertyId'') (\<lambda>p.
     try_bind (subscript interaction ''interactionType'') (\<lambda>t.
       Inr (''User recently viewed: '' @ py_str L p @ '' ('' @ py_str L t @ '')'')))"

fun add_interactions :: "pylib \<Rightarrow> json list \<Rightarrow> chat_ctx \<Rightarrow> chat_ctx \<times> py_error option" where
  "add_interactions L [] ctx = (ctx, None)"
| "add_interactions L (interaction # interactions) ctx =
     (case interaction_text L interaction of
        Inl e \<Rightarrow> (ctx, Some e)
      | Inr c \<Rightarrow> add_interactions L interactions (add_message ''assistant'' c ctx))"

definition inject_property_interactions ::
  "pylib \<Rightarrow> json \<Rightarrow> chat_ctx \<Rightarrow> chat_ctx \<times> py_error option" where
  "inject_property_interactions L context turn_ctx =
     (case dict_get context ''propertyInteractions'' JNull of
        Inl e \<Rightarrow> (turn_ctx, Some e)
      | Inr v \<Rightarrow>
          if py_truthy v then
            (case try_bind (subscript context ''propertyInteractions'') (slice_items 3) of
               Inl e \<Rightarrow> (turn_ctx, Some e)
             | Inr interactions \<Rightarrow> add_interactions L interactions turn_ctx)
          else (turn_ctx, None))"

definition on_user_turn_completed ::
  "pylib \<Rightarrow> agent \<Rightarrow> world \<Rightarrow> chat_ctx \<Rightarrow> chat_message \<Rightarrow>
   (chat_ctx \<times> py_error option) \<times> world" where
  "on_user_turn_completed L A w turn_ctx new_message =
     (let (context, w') =
            recall_context (convex A) w (user_id A) (or_str (text_content new_message) []) 10
      in (and_then
            (and_then (inject_suburb_preferences L context turn_ctx) (inject_facts L context))
            (inject_property_interactions L context),
          w'))"

subsection \<open>remember_preference\<close>

text \<open>
  \<^verbatim>\<open>s.split(sep)\<close> for a separator that is not empty: the pieces between the
  occurrences of \<open>sep\<close>, found from the left without overlap.
\<close>

fun py_split :: "string \<Rightarrow> string \<Rightarrow> string list" where
  "py_split sep [] = [[]]"
| "py_split sep (c # cs) =
     (if prefix sep (c # cs) then [] # py_split sep (drop (length sep - 1) cs)
      else (case py_split sep cs of
              [] \<Rightarrow> [[c]]
            | p # ps \<Rightarrow> (c # p) # ps))"

text \<open>\<^verbatim>\<open>xs[i]\<close> for a list and an index that is not negative.\<close>

definition index :: "'a list \<Rightarrow> nat \<Rightarrow> py_error + 'a" where
  "index xs i = (if i < length xs then Inr (xs ! i) else Inl IndexError)"

text \<open>\<^verbatim>\<open>xs[-1]\<close> for a list.\<close>

definition index_last :: "'a list \<Rightarrow> py_error + 'a" where
  "index_last xs = (if xs = [] then Inl IndexError else Inr (last xs))"

text \<open>
  The object reached through \<^verbatim>\<open>context.session\<close> is a LiveKit \<^verbatim>\<open>AgentSession\<close>. It keeps
  the conversation under the attribute \<^verbatim>\<open>history\<close> and has no attribute named
  \<^verbatim>\<open>chat_context\<close>; in the source that name occurs on line 369 only, and everywhere else
  the conversation is a \<^verbatim>\<open>ChatContext\<close> used through \<^verbatim>\<open>add_message\<close>. Reading an
  attribute that an object does not have raises \<^verbatim>\<open>AttributeError\<close>.
\<close>

record agent_session =
  history :: chat_ctx

definition session_getattr :: "agent_session \<Rightarrow> string \<Rightarrow> py_error + chat_ctx" where
  "session_getattr session name =
     (if name = ''history'' then Inr (history session) else Inl AttributeError)"

text \<open>
  The value stored under \<^verbatim>\<open>"mentionedInQuery"\<close> (line 369), a conditional expression
  \<^verbatim>\<open>X[-1].text_content if X else None\<close> with \<^verbatim>\<open>X = context.session.chat_context\<close>: the
  condition is evaluated first.
\<close>

definition mentioned_in_query :: "agent_session \<Rightarrow> py_error + json" where
  "mentioned_in_query session =
     try_bind (session_getattr session ''chat_context'') (\<lambda>cond.
       if cond \<noteq> [] then
         try_bind (session_getattr session ''chat_context'') (\<lambda>chat.
         try_bind (index_last chat) (\<lambda>m. Inr (opt_str (text_content m))))
       else Inr JNull)"

text \<open>
  The statement \<^verbatim>\<open>if category == "suburb": ...\<close> (lines 372 to 379), which adds three
  entries to the dictionary \<^verbatim>\<open>metadata\<close>.
\<close>

definition add_suburb_metadata ::
  "(string \<times> json) list \<Rightarrow> string \<Rightarrow> string \<Rightarrow> py_error + json" where
  "add_suburb_metadata metadata category preference =
     (if category = ''suburb'' then
        (let parts = py_split '', '' preference
         in try_bind (index parts 0) (\<lambda>suburb.
            try_bind (if length parts > 1 then index parts 1 else Inr ''NSW'') (\<lambda>state.
              Inr (JObj (AList.update ''reason'' (JStr ''User stated this directly'')
                        (AList.update ''state'' (JStr state)
                        (AList.update ''suburbName'' (JStr suburb) metadata)))))))
      else Inr (JObj metadata))"

text \<open>The dictionary \<^verbatim>\<open>metadata\<close> as it is passed to \<^verbatim>\<open>store_preference\<close> (lines 368 to 379).\<close>

definition preference_metadata :: "agent_session \<Rightarrow> string \<Rightarrow> string \<Rightarrow> py_error + json" where
  "preference_metadata session category preference =
     try_bind (mentioned_in_query session) (\<lambda>m.
       add_suburb_metadata [(''mentionedInQuery'', m)] category preference)"

text \<open>The call of \<^verbatim>\<open>store_preference\<close> and the reply chosen from its result (lines 381 to 393).\<close>

definition store_and_reply ::
  "agent \<Rightarrow> world \<Rightarrow> string \<Rightarrow> string \<Rightarrow> bool \<Rightarrow> int \<Rightarrow> json \<Rightarrow> (py_error + string) \<times> world" where
  "store_and_reply A w category preference is_positive confidence metadata =
     (let (success, w') =
            store_preference (convex A) w (user_id A) category preference confidence metadata
      in if py_truthy success then
           (Inr (''Got it! I'll remember you ''
                 @ (if is_positive then ''love'' else ''prefer to avoid'')
                 @ '' '' @ preference @ '' for future searches.''), w')
         else
           (Inr (''I had trouble saving that preference, ''
                 @ ''but I'll keep it in mind for this conversation.''), w'))"

text \<open>
  The tool \<^verbatim>\<open>remember_preference\<close>; \<open>session\<close> is \<^verbatim>\<open>context.session\<close>. An exception raised
  while the metadata is built leaves the tool before any request is sent.
\<close>

definition remember_preference ::
  "agent \<Rightarrow> world \<Rightarrow> agent_session \<Rightarrow> string \<Rightarrow> string \<Rightarrow> bool \<Rightarrow>
   (py_error + string) \<times> world" where
  "remember_preference A w session category preference is_positive =
     (let confidence = (if is_positive then 80 else 70)
      in case preference_metadata session category preference of
           Inl e \<Rightarrow> (Inl e, w)
         | Inr metadata \<Rightarrow>
             store_and_reply A w category preference is_positive confidence metadata)"

subsection \<open>get_property_details\<close>

text \<open>The table \<^verbatim>\<open>properties\<close>. The land sizes end in U+00B2, written as its UTF-8 bytes.\<close>

definition properties :: "(string \<times> json) list" where
  "properties =
     [(''prop-001'',
       JObj [(''id'', JStr ''prop-001''),
             (''address'', JStr ''42 Ocean Street, Bondi Beach NSW 2026''),
             (''price'', JInt 1500000),
             (''bedrooms'', JInt 3),
             (''bathrooms'', JInt 2),
             (''parking'', JInt 1),
             (''landsize'', JStr (''450m'' @ [CHR 0xC2, CHR 0xB2])),
             (''year'', JInt 2020),
             (''features'', JArr [JStr ''Ocean views'', JStr ''Modern kitchen'',
                                  JStr ''Air conditioning'', JStr ''Close to beach'']),
             (''description'',
              JStr (''Stunning modern home with breathtaking ocean views. ''
                    @ ''Recently renovated with premium finishes throughout.''))]),
      (''prop-002'',
       JObj [(''id'', JStr ''prop-002''),
             (''address'', JStr ''15 Beach Road, Bondi Beach NSW 2026''),
             (''price'', JInt 800000),
             (''bedrooms'', JInt 2),
             (''bathrooms'', JInt 1),
             (''parking'', JInt 1),
             (''landsize'', JStr (''120m'' @ [CHR 0xC2, CHR 0xB2])),
             (''year'', JInt 2019),
             (''features'', JArr [JStr ''New kitchen'', JStr ''Floorboards'',
                                  JStr ''North facing'']),
             (''description'',
              JStr ''Chic apartment in prime location, moments from the beach.'')])]"

text \<open>The parenthesised f-string \<^verbatim>\<open>details\<close>; its fields are evaluated from left to right.\<close>

definition details :: "pylib \<Rightarrow> json \<Rightarrow> py_error + string" where
  "details L prop =
     try_bind (subscript prop ''address'') (\<lambda>address.
     try_bind (try_bind (subscript prop ''price'') (format_comma L)) (\<lambda>price.
     try_bind (subscript prop ''bedrooms'') (\<lambda>bedrooms.
     try_bind (subscript prop ''bathrooms'') (\<lambda>bathrooms.
     try_bind (subscript prop ''parking'') (\<lambda>parking.
     try_bind (subscript prop ''year'') (\<lambda>year.
     try_bind (try_bind (try_bind (subscript prop ''features'') (slice_items 3)) str_items)
       (\<lambda>features.
     try_bind (subscript prop ''description'') (\<lambda>description.
       Inr (py_str L address @ [CHR 0x0A]
            @ ''Price: $'' @ price @ [CHR 0x0A]
            @ py_str L bedrooms @ '' bed, '' @ py_str L bathrooms @ '' bath, ''
            @ py_str L parking @ '' parking'' @ [CHR 0x0A]
            @ ''Built: '' @ py_str L year @ [CHR 0x0A, CHR 0x0A]
            @ ''Features: '' @ join '', '' features @ [CHR 0x0A, CHR 0x0A]
            @ py_str L description)))))))))"

definition get_property_details ::
  "pylib \<Rightarrow> agent \<Rightarrow> world \<Rightarrow> string \<Rightarrow> (py_error + string) \<times> world" where
  "get_property_details L A w property_id =
     (let prop = (case map_of properties property_id of None \<Rightarrow> JNull | Some p \<Rightarrow> p)
      in if \<not> py_truthy prop then
           (Inr (''Sorry, I couldn't find details for property '' @ property_id @ ''.''), w)
         else
           (let w' = snd (remember_conversation (convex A) w (user_id A)
                            (''Get details for '' @ property_id) (json_dumps L prop)
                            (JStr property_id) prop)
            in (details L prop, w')))"

subsection \<open>Identity of the caller\<close>

text \<open>
  The first two statements of the session entry point \<^verbatim>\<open>haus_agent\<close> after the
  configuration is loaded: \<open>metadata\<close> is \<^verbatim>\<open>ctx.job.metadata\<close> (a string, or \<^verbatim>\<open>None\<close>)
  and \<open>room_name\<close> is \<^verbatim>\<open>ctx.room.name\<close>.
\<close>

definition haus_agent_user_id :: "pylib \<Rightarrow> string option \<Rightarrow> json \<Rightarrow> py_error + json" where
  "haus_agent_user_id L metadata room_name =
     try_bind (case metadata of
                 None \<Rightarrow> Inr (JObj [])
               | Some m \<Rightarrow> if m \<noteq> [] then json_loads L m else Inr (JObj []))
       (\<lambda>job_metadata.
     try_bind (dict_get job_metadata ''userId'' JNull) (\<lambda>uid.
       Inr (py_or (py_or uid room_name) (JStr ''anonymous''))))"

section \<open>Evaluation lemmas\<close>

text \<open>
  The equations of \<open>digits\<close> and \<open>commas\<close> are recursive without a pattern, so they are
  taken out of the simplifier and used at numerals and explicit lists only.
\<close>

declare digits.simps [simp del] commas.simps [simp del]

lemma digits_small: "n < 10 \<Longrightarrow> digits n = [''0123456789'' ! n]"
  by (subst digits.simps) simp

lemma digits_numeral:
  "digits (numeral k) =
     (if numeral k < (10::nat) then [''0123456789'' ! numeral k]
      else digits (numeral k div 10) @ [''0123456789'' ! (numeral k mod 10)])"
  by (rule digits.simps)

lemma commas_Cons:
  "commas (c # cs) =
     (if length (c # cs) \<le> 3 then c # cs
      else commas (take (length (c # cs) - 3) (c # cs))
           @ '','' @ drop (length (c # cs) - 3) (c # cs))"
  by (rule commas.simps)

lemmas eval_digits = digits_small digits_numeral commas_Cons str_int_def format_thousands_def

lemmas client_defs =
  post_def checked_json_def try_bind_def raise_for_status_def response_json_def
  success_flag_def dict_get_def

lemma format_thousands_examples:
  "format_thousands 0 = ''0''"
  "format_thousands 999 = ''999''"
  "format_thousands 1000 = ''1,000''"
  "format_thousands 1500000 = ''1,500,000''"
  "format_thousands (- 1234567) = ''-1,234,567''"
  by (simp_all add: eval_digits)

lemma py_split_examples:
  "py_split '', '' ''Bondi, NSW'' = [''Bondi'', ''NSW'']"
  "py_split '', '' ''Bondi'' = [''Bondi'']"
  "py_split '', '' ''a, b, , c,d, '' = [''a'', ''b'', '''', ''c,d'', '''']"
  "py_split '', '' '''' = ['''']"
  by simp_all

section \<open>search_properties\<close>

lemma search_properties_text:
  "fst (search_properties L A w location budget_min budget_max bedrooms property_type) =
     Inr (''Found 2 properties in '' @ location @ ''. '')"
  by (simp add: search_properties_def search_results_def subscript_def Let_def eval_digits
      split: prod.splits)

text \<open>
  Claim C1. The string returned by \<^verbatim>\<open>search_properties\<close> should name the number of
  candidates, the bedroom count and the price of the top match, and invite a follow-up.
  The code returns the first fragment only: for the location \<open>Bondi\<close> and no other
  argument the result is \<open>Found 2 properties in Bondi. \<close> and nothing more, whatever the
  memory service answers.
\<close>

theorem search_properties_summary_cut_short:
  "fst (search_properties L A w ''Bondi'' None None None None) =
     Inr ''Found 2 properties in Bondi. ''"
  using search_properties_text [of L A w "''Bondi''" None None None None] by simp

text \<open>
  Claim C2, as stated: the second candidate is always priced 200000 below the first.
  Without \<^verbatim>\<open>budget_max\<close> the two fallbacks differ, and the prices are 1500000 and
  800000.
\<close>

theorem second_candidate_price_counterexample:
  "subscript (search_results ''Bondi'' None None None ! 0) ''price'' = Inr (JInt 1500000)
   \<and> subscript (search_results ''Bondi'' None None None ! 1) ''price'' = Inr (JInt 800000)
   \<and> (800000 :: int) \<noteq> 1500000 - 200000"
  by (simp add: search_results_def subscript_def or_int_def)

text \<open>
  Claim C2, amended. When \<^verbatim>\<open>budget_max\<close> is given and is not zero, the first candidate
  is priced at \<^verbatim>\<open>budget_max\<close> and the second 200000 below it. When \<^verbatim>\<open>budget_max\<close> is
  absent (or zero), the first candidate is priced 1500000 and the second 800000.
\<close>

theorem candidate_prices:
  "(budget_max = Some b \<and> b \<noteq> 0 \<longrightarrow>
      subscript (search_results location budget_max bedrooms property_type ! 0) ''price''
        = Inr (JInt b)
    \<and> subscript (search_results location budget_max bedrooms property_type ! 1) ''price''
        = Inr (JInt (b - 200000)))
   \<and> (budget_max = None \<or> budget_max = Some 0 \<longrightarrow>
      subscript (search_results location budget_max bedrooms property_type ! 0) ''price''
        = Inr (JInt 1500000)
    \<and> subscript (search_results location budget_max bedrooms property_type ! 1) ''price''
        = Inr (JInt 800000))"
  by (auto simp: search_results_def subscript_def or_int_def)

theorem candidate_prices_witness:
  "subscript (search_results ''Bondi'' (Some 900000) None None ! 0) ''price'' = Inr (JInt 900000)
   \<and> subscript (search_results ''Bondi'' (Some 900000) None None ! 1) ''price''
       = Inr (JInt 700000)
   \<and> subscript (search_results ''Bondi'' None None None ! 0) ''price'' = Inr (JInt 1500000)
   \<and> subscript (search_results ''Bondi'' None None None ! 1) ''price'' = Inr (JInt 800000)"
  using candidate_prices [of "Some 900000" 900000 "''Bondi''" None None]
        candidate_prices [of None 0 "''Bondi''" None None]
  by simp

section \<open>recall_context\<close>

text \<open>
  Claim C3. When the call to the memory service fails (no response, a status that is
  not 2xx, or a body that is not valid JSON), \<^verbatim>\<open>recall_context\<close> returns the dictionary
  whose four fields are empty lists. The exception raised inside the \<^verbatim>\<open>try\<close> block is
  caught: the result is a value in every case.
\<close>

theorem recall_context_failure:
  assumes "respond w (sent w)
             \<lparr>url = base_url C @ ''/api/cortex/recall'',
              payload = JObj [(''userId'', uid), (''query'', JStr query),
                              (''limit'', JInt limit)]\<rparr>
           = outcome"
      and "outcome = NoResponse
           \<or> (\<exists>status body. outcome = Response status body
                \<and> (status < 200 \<or> 299 < status \<or> body = None))"
  shows "fst (recall_context C w uid query limit) =
           JObj [(''memories'', JArr []), (''facts'', JArr []),
                 (''propertyInteractions'', JArr []), (''suburbPreferences'', JArr [])]"
  using assms
  by (auto simp: recall_context_def post_def checked_json_def try_bind_def raise_for_status_def
        response_json_def empty_recall_def)

theorem recall_context_failure_witness:
  "fst (recall_context \<lparr>base_url = ''https://haus.convex.site''\<rparr>
          \<lparr>respond = (\<lambda>_ _. Response 500 None), sent = []\<rparr> (JStr ''u1'') ''hello'' 10) =
     JObj [(''memories'', JArr []), (''facts'', JArr []),
           (''propertyInteractions'', JArr []), (''suburbPreferences'', JArr [])]"
  by (rule recall_context_failure [where outcome = "Response 500 None"]) simp_all

section \<open>on_user_turn_completed\<close>

lemma suburb_entries_ok:
  "list_all2 (\<lambda>p (name, score). subscript p ''suburbName'' = Inr name
                \<and> subscript p ''preferenceScore'' = Inr score) ps entries \<Longrightarrow>
   suburb_entries L ps =
     Inr (map (\<lambda>(name, score). py_str L name @ '' (score: '' @ py_str L score @ '')'') entries)"
  by (induction rule: list_all2_induct) (auto simp: suburb_entry_def try_bind_def)

lemma add_facts_ok:
  "list_all2 (\<lambda>f (t, c). subscript f ''fact'' = Inr t \<and> subscript f ''confidence'' = Inr c)
     fs entries \<Longrightarrow>
   add_facts L fs ctx =
     (ctx @ map (\<lambda>(t, c). \<lparr>role = ''assistant'',
                   text_content = Some (''Remembered: '' @ py_str L t @ '' (confidence: ''
                                        @ py_str L c @ ''%)'')\<rparr>) entries, None)"
proof (induction arbitrary: ctx rule: list_all2_induct)
  case Nil
  then show ?case by simp
next
  case (Cons f e fs es)
  then show ?case
    by (auto simp: fact_text_def try_bind_def add_message_def)
qed

text \<open>
  Whatever the list holds, the loop over the facts only appends messages, and each one
  starts with \<open>Remembered: \<close>; an exception stops it but keeps what was appended.
\<close>

lemma add_facts_shape:
  "\<exists>msgs err. add_facts L fs ctx = (ctx @ msgs, err)
     \<and> (\<forall>m\<in>set msgs. \<exists>t. text_content m = Some (''Remembered: '' @ t))"
proof (induction fs arbitrary: ctx)
  case Nil
  then show ?case by simp
next
  case (Cons f fs)
  show ?case
  proof (cases "fact_text L f")
    case (Inl e)
    then show ?thesis by simp
  next
    case (Inr c)
    then obtain t where c: "c = ''Remembered: '' @ t"
      by (auto simp: fact_text_def try_bind_def split: sum.splits)
    from Cons [of "add_message ''assistant'' c ctx"] obtain msgs err where
      r: "add_facts L fs (add_message ''assistant'' c ctx) =
            (add_message ''assistant'' c ctx @ msgs, err)"
      and s: "\<forall>m\<in>set msgs. \<exists>t. text_content m = Some (''Remembered: '' @ t)"
      by blast
    have "add_facts L (f # fs) ctx =
            (ctx @ (\<lparr>role = ''assistant'', text_content = Some c\<rparr> # msgs), err)"
      using Inr r by (simp add: add_message_def)
    moreover have "\<forall>m\<in>set (\<lparr>role = ''assistant'', text_content = Some c\<rparr> # msgs).
                     \<exists>t. text_content m = Some (''Remembered: '' @ t)"
      using s c by simp
    ultimately show ?thesis by blast
  qed
qed

lemma add_interactions_shape:
  "\<exists>msgs err. add_interactions L xs ctx = (ctx @ msgs, err)
     \<and> (\<forall>m\<in>set msgs. \<exists>t. text_content m = Some (''User recently viewed: '' @ t))"
proof (induction xs arbitrary: ctx)
  case Nil
  then show ?case by simp
next
  case (Cons x xs)
  show ?case
  proof (cases "interaction_text L x")
    case (Inl e)
    then show ?thesis by simp
  next
    case (Inr c)
    then obtain t where c: "c = ''User recently viewed: '' @ t"
      by (auto simp: interaction_text_def try_bind_def split: sum.splits)
    from Cons [of "add_message ''assistant'' c ctx"] obtain msgs err where
      r: "add_interactions L xs (add_message ''assistant'' c ctx) =
            (add_message ''assistant'' c ctx @ msgs, err)"
      and s: "\<forall>m\<in>set msgs. \<exists>t. text_content m = Some (''User recently viewed: '' @ t)"
      by blast
    have "add_interactions L (x # xs) ctx =
            (ctx @ (\<lparr>role = ''assistant'', text_content = Some c\<rparr> # msgs), err)"
      using Inr r by (simp add: add_message_def)
    moreover have "\<forall>m\<in>set (\<lparr>role = ''assistant'', text_content = Some c\<rparr> # msgs).
                     \<exists>t. text_content m = Some (''User recently viewed: '' @ t)"
      using s c by simp
    ultimately show ?thesis by blast
  qed
qed

lemma inject_facts_shape:
  "\<exists>msgs err. inject_facts L context ctx = (ctx @ msgs, err)
     \<and> (\<forall>m\<in>set msgs. \<exists>t. text_content m = Some (''Remembered: '' @ t))"
proof -
  have unchanged: "\<And>e. \<exists>msgs err. (ctx, e) = (ctx @ msgs, err)
     \<and> (\<forall>m\<in>set msgs. \<exists>t. text_content m = Some (''Remembered: '' @ t))"
    by (rule exI [of _ "[]"]) simp
  show ?thesis
    unfolding inject_facts_def
    using unchanged add_facts_shape [of L _ ctx]
    by (auto split: sum.splits)
qed

lemma inject_property_interactions_shape:
  "\<exists>msgs err. inject_property_interactions L context ctx = (ctx @ msgs, err)
     \<and> (\<forall>m\<in>set msgs. \<exists>t. text_content m = Some (''User recently viewed: '' @ t))"
proof -
  have unchanged: "\<And>e. \<exists>msgs err. (ctx, e) = (ctx @ msgs, err)
     \<and> (\<forall>m\<in>set msgs. \<exists>t. text_content m = Some (''User recently viewed: '' @ t))"
    by (rule exI [of _ "[]"]) simp
  show ?thesis
    unfolding inject_property_interactions_def
    using unchanged add_interactions_shape [of L _ ctx]
    by (auto split: sum.splits)
qed

lemma inject_suburb_preferences_shape:
  "\<exists>msgs err. inject_suburb_preferences L context ctx = (ctx @ msgs, err)
     \<and> length msgs \<le> 1
     \<and> (\<forall>m\<in>set msgs. \<exists>t. text_content m = Some (''User's suburb preferences: '' @ t))"
proof -
  have unchanged: "\<And>e. \<exists>msgs err. (ctx, e) = (ctx @ msgs, err) \<and> length msgs \<le> 1
     \<and> (\<forall>m\<in>set msgs. \<exists>t. text_content m = Some (''User's suburb preferences: '' @ t))"
    by (rule exI [of _ "[]"]) simp
  have one: "\<And>s. \<exists>msgs err.
       (add_message ''assistant'' (''User's suburb preferences: '' @ s) ctx, None)
         = (ctx @ msgs, err)
     \<and> length msgs \<le> 1
     \<and> (\<forall>m\<in>set msgs. \<exists>t. text_content m = Some (''User's suburb preferences: '' @ t))"
    by (rule exI [of _ "[\<lparr>role = ''assistant'',
           text_content = Some (''User's suburb preferences: '' @ s)\<rparr>]" for s])
       (simp add: add_message_def)
  show ?thesis
    unfolding inject_suburb_preferences_def
    using unchanged one
    by (auto split: sum.splits simp del: append.simps)
qed

text \<open>The suburb-preference step raises nothing when the field is missing or false.\<close>

lemma inject_suburb_preferences_absent:
  "map_of kvs ''suburbPreferences'' = None \<Longrightarrow>
   inject_suburb_preferences L (JObj kvs) ctx = (ctx, None)"
  by (simp add: inject_suburb_preferences_def dict_get_def py_truthy_def)

lemma inject_suburb_preferences_falsy:
  "map_of kvs ''suburbPreferences'' = Some v \<Longrightarrow> \<not> py_truthy v \<Longrightarrow>
   inject_suburb_preferences L (JObj kvs) ctx = (ctx, None)"
  by (simp add: inject_suburb_preferences_def dict_get_def)

lemma after_suburbs:
  "\<exists>rest err.
     and_then (inject_facts L context ctx) (inject_property_interactions L context)
       = (ctx @ rest, err)
     \<and> (\<forall>m\<in>set rest. \<exists>t. text_content m = Some (''Remembered: '' @ t)
                          \<or> text_content m = Some (''User recently viewed: '' @ t))"
proof -
  obtain fm e1 where f: "inject_facts L context ctx = (ctx @ fm, e1)"
    and fm: "\<forall>m\<in>set fm. \<exists>t. text_content m = Some (''Remembered: '' @ t)"
    using inject_facts_shape by blast
  show ?thesis
  proof (cases e1)
    case (Some e)
    then have "and_then (inject_facts L context ctx) (inject_property_interactions L context) =
                 (ctx @ fm, Some e)"
      by (simp add: f and_then_def)
    with fm show ?thesis by blast
  next
    case None
    obtain im e2 where
      i: "inject_property_interactions L context (ctx @ fm) = ((ctx @ fm) @ im, e2)"
      and im: "\<forall>m\<in>set im. \<exists>t. text_content m = Some (''User recently viewed: '' @ t)"
      using inject_property_interactions_shape by blast
    have "and_then (inject_facts L context ctx) (inject_property_interactions L context) =
            (ctx @ (fm @ im), e2)"
      using None by (simp add: f i and_then_def)
    moreover have "\<forall>m\<in>set (fm @ im). \<exists>t. text_content m = Some (''Remembered: '' @ t)
                          \<or> text_content m = Some (''User recently viewed: '' @ t)"
      using fm im by auto
    ultimately show ?thesis by blast
  qed
qed

text \<open>
  Claim C4. When the recall result is a dictionary whose \<^verbatim>\<open>suburbPreferences\<close> is a
  list that is not empty, and each of its first five entries has a \<^verbatim>\<open>suburbName\<close> and
  a \<^verbatim>\<open>preferenceScore\<close>, the hook appends exactly one message about suburb
  preferences to the turn context. Its role is \<open>assistant\<close>; after the prefix
  \<open>User's suburb preferences: \<close> it lists the first five entries (fewer if the service
  returned fewer), in the order of the service, each as \<open>name (score: score)\<close>, separated
  by a comma and a space. Every other message appended in the turn is a fact or a
  property-interaction message.
\<close>

theorem suburb_preferences_message:
  assumes recall: "fst (recall_context (convex A) w (user_id A)
                          (or_str (text_content new_message) []) 10) = JObj kvs"
      and prefs: "map_of kvs ''suburbPreferences'' = Some (JArr prefs)" "prefs \<noteq> []"
      and entries: "list_all2 (\<lambda>p (name, score). subscript p ''suburbName'' = Inr name
                                 \<and> subscript p ''preferenceScore'' = Inr score)
                      (take 5 prefs) entries"
  shows "\<exists>rest err.
           fst (on_user_turn_completed L A w turn_ctx new_message) =
             (turn_ctx
              @ [\<lparr>role = ''assistant'',
                   text_content = Some (''User's suburb preferences: ''
                     @ join '', '' (map (\<lambda>(name, score). py_str L name @ '' (score: ''
                                           @ py_str L score @ '')'') entries))\<rparr>]
              @ rest, err)
           \<and> length entries = min 5 (length prefs)
           \<and> (\<forall>m\<in>set rest. \<exists>t. text_content m = Some (''Remembered: '' @ t)
                                \<or> text_content m = Some (''User recently viewed: '' @ t))"
proof -
  let ?m = "\<lparr>role = ''assistant'',
              text_content = Some (''User's suburb preferences: ''
                @ join '', '' (map (\<lambda>(name, score). py_str L name @ '' (score: ''
                                      @ py_str L score @ '')'') entries))\<rparr>"
  have s: "inject_suburb_preferences L (JObj kvs) turn_ctx = (turn_ctx @ [?m], None)"
    using prefs suburb_entries_ok [OF entries, of L]
    by (simp add: inject_suburb_preferences_def dict_get_def subscript_def slice_items_def
          try_bind_def py_truthy_def add_message_def)
  obtain rest err where r:
    "and_then (inject_facts L (JObj kvs) (turn_ctx @ [?m]))
       (inject_property_interactions L (JObj kvs)) = ((turn_ctx @ [?m]) @ rest, err)"
    and rest: "\<forall>m\<in>set rest. \<exists>t. text_content m = Some (''Remembered: '' @ t)
                                \<or> text_content m = Some (''User recently viewed: '' @ t)"
    using after_suburbs by blast
  have "and_then (and_then (inject_suburb_preferences L (JObj kvs) turn_ctx)
                    (inject_facts L (JObj kvs)))
          (inject_property_interactions L (JObj kvs)) = (turn_ctx @ [?m] @ rest, err)"
    using r by (simp add: s and_then_def)
  then have "fst (on_user_turn_completed L A w turn_ctx new_message) =
               (turn_ctx @ [?m] @ rest, err)"
    using recall by (simp add: on_user_turn_completed_def split_beta)
  moreover have "length entries = min 5 (length prefs)"
    using list_all2_lengthD [OF entries] by simp
  ultimately show ?thesis using rest by blast
qed

text \<open>The service returns six suburbs; the message lists the first five, in its order.\<close>

theorem suburb_preferences_message_witness:
  "\<exists>rest err.
     fst (on_user_turn_completed
            \<lparr>py_repr = (\<lambda>_. []), py_format = (\<lambda>_ _. Inl TypeError), json_dumps = (\<lambda>_. []),
             json_loads = (\<lambda>_. Inl JSONDecodeError)\<rparr>
            \<lparr>convex = \<lparr>base_url = ''https://haus.convex.site''\<rparr>, user_id = JStr ''u1''\<rparr>
            \<lparr>respond = (\<lambda>_ _. Response 200 (Some (JObj
               [(''suburbPreferences'', JArr
                  [JObj [(''suburbName'', JStr ''Bondi''), (''preferenceScore'', JInt 90)],
                   JObj [(''suburbName'', JStr ''Coogee''), (''preferenceScore'', JInt 85)],
                   JObj [(''suburbName'', JStr ''Manly''), (''preferenceScore'', JInt 70)],
                   JObj [(''suburbName'', JStr ''Newtown''), (''preferenceScore'', JInt 65)],
                   JObj [(''suburbName'', JStr ''Glebe''), (''preferenceScore'', JInt 50)],
                   JObj [(''suburbName'', JStr ''Bronte''), (''preferenceScore'', JInt 40)]])]))),
             sent = []\<rparr>
            []
            \<lparr>role = ''user'', text_content = Some ''Any ideas?''\<rparr>) =
       ([\<lparr>role = ''assistant'',
           text_content = Some (''User's suburb preferences: Bondi (score: 90), ''
             @ ''Coogee (score: 85), Manly (score: 70), Newtown (score: 65), Glebe (score: 50)'')\<rparr>]
        @ rest, err)"
proof -
  let ?prefs =
    "[JObj [(''suburbName'', JStr ''Bondi''), (''preferenceScore'', JInt 90)],
      JObj [(''suburbName'', JStr ''Coogee''), (''preferenceScore'', JInt 85)],
      JObj [(''suburbName'', JStr ''Manly''), (''preferenceScore'', JInt 70)],
      JObj [(''suburbName'', JStr ''Newtown''), (''preferenceScore'', JInt 65)],
      JObj [(''suburbName'', JStr ''Glebe''), (''preferenceScore'', JInt 50)],
      JObj [(''suburbName'', JStr ''Bronte''), (''preferenceScore'', JInt 40)]]"
  let ?entries =
    "[(JStr ''Bondi'', JInt 90), (JStr ''Coogee'', JInt 85), (JStr ''Manly'', JInt 70),
      (JStr ''Newtown'', JInt 65), (JStr ''Glebe'', JInt 50)]"
  let ?L = "\<lparr>py_repr = (\<lambda>_. []), py_format = (\<lambda>_ _. Inl TypeError), json_dumps = (\<lambda>_. []),
             json_loads = (\<lambda>_. Inl JSONDecodeError)\<rparr>"
  let ?A = "\<lparr>convex = \<lparr>base_url = ''https://haus.convex.site''\<rparr>, user_id = JStr ''u1''\<rparr>"
  let ?w = "\<lparr>respond = (\<lambda>_ _. Response 200 (Some (JObj [(''suburbPreferences'', JArr ?prefs)]))),
             sent = []\<rparr>"
  let ?msg = "\<lparr>role = ''user'', text_content = Some ''Any ideas?''\<rparr>"
  have recall: "fst (recall_context (convex ?A) ?w (user_id ?A) (or_str (text_content ?msg) []) 10)
                  = JObj [(''suburbPreferences'', JArr ?prefs)]"
    by (simp add: recall_context_def client_defs)
  have prefs: "map_of [(''suburbPreferences'', JArr ?prefs)] ''suburbPreferences''
                 = Some (JArr ?prefs)"
    by simp
  have nonempty: "?prefs \<noteq> []" by simp
  have entries: "list_all2 (\<lambda>p (name, score). subscript p ''suburbName'' = Inr name
                                 \<and> subscript p ''preferenceScore'' = Inr score)
                      (take 5 ?prefs) ?entries"
    by (simp add: subscript_def)
  show ?thesis
    using suburb_preferences_message
            [OF recall prefs nonempty entries, where L = ?L and turn_ctx = "[]"]
    by (auto simp: py_str_def eval_digits)
qed

text \<open>
  Claim C5. When the recall result is a dictionary whose \<^verbatim>\<open>facts\<close> is a list that is
  not empty, each of its first five entries has a \<^verbatim>\<open>fact\<close> and a \<^verbatim>\<open>confidence\<close>, and
  the suburb-preference step before it raises nothing, the hook appends one message
  per fact for the first five facts (fewer if there are fewer), in order, with role
  \<open>assistant\<close> and the text \<open>Remembered: fact (confidence: confidence%)\<close> holding the
  two values as Python prints them. The messages before them are at most one
  suburb-preference message, the messages after them are property-interaction messages.
\<close>

theorem fact_messages:
  assumes recall: "fst (recall_context (convex A) w (user_id A)
                          (or_str (text_content new_message) []) 10) = JObj kvs"
      and facts: "map_of kvs ''facts'' = Some (JArr facts)" "facts \<noteq> []"
      and entries: "list_all2 (\<lambda>f (t, c). subscript f ''fact'' = Inr t
                                 \<and> subscript f ''confidence'' = Inr c)
                      (take 5 facts) entries"
      and suburbs: "snd (inject_suburb_preferences L (JObj kvs) turn_ctx) = None"
  shows "\<exists>pre post err.
           fst (on_user_turn_completed L A w turn_ctx new_message) =
             (turn_ctx @ pre
              @ map (\<lambda>(t, c). \<lparr>role = ''assistant'',
                       text_content = Some (''Remembered: '' @ py_str L t @ '' (confidence: ''
                                            @ py_str L c @ ''%)'')\<rparr>) entries
              @ post, err)
           \<and> length entries = min 5 (length facts)
           \<and> length pre \<le> 1
           \<and> (\<forall>m\<in>set pre. \<exists>t. text_content m = Some (''User's suburb preferences: '' @ t))
           \<and> (\<forall>m\<in>set post. \<exists>t. text_content m = Some (''User recently viewed: '' @ t))"
proof -
  let ?fm = "map (\<lambda>(t, c). \<lparr>role = ''assistant'',
                       text_content = Some (''Remembered: '' @ py_str L t @ '' (confidence: ''
                                            @ py_str L c @ ''%)'')\<rparr>) entries"
  obtain pre e0 where s: "inject_suburb_preferences L (JObj kvs) turn_ctx = (turn_ctx @ pre, e0)"
    and pre: "length pre \<le> 1"
       "\<forall>m\<in>set pre. \<exists>t. text_content m = Some (''User's suburb preferences: '' @ t)"
    using inject_suburb_preferences_shape by blast
  from s suburbs have e0: "e0 = None" by simp
  have f: "inject_facts L (JObj kvs) (turn_ctx @ pre) = ((turn_ctx @ pre) @ ?fm, None)"
    using facts add_facts_ok [OF entries, of L "turn_ctx @ pre"]
    by (simp add: inject_facts_def dict_get_def subscript_def slice_items_def try_bind_def
          py_truthy_def)
  obtain post err where i:
    "inject_property_interactions L (JObj kvs) ((turn_ctx @ pre) @ ?fm) =
       (((turn_ctx @ pre) @ ?fm) @ post, err)"
    and post: "\<forall>m\<in>set post. \<exists>t. text_content m = Some (''User recently viewed: '' @ t)"
    using inject_property_interactions_shape by blast
  have "and_then (and_then (inject_suburb_preferences L (JObj kvs) turn_ctx)
                    (inject_facts L (JObj kvs)))
          (inject_property_interactions L (JObj kvs)) = (turn_ctx @ pre @ ?fm @ post, err)"
    using i by (simp add: s e0 f and_then_def)
  then have "fst (on_user_turn_completed L A w turn_ctx new_message) =
               (turn_ctx @ pre @ ?fm @ post, err)"
    using recall by (simp add: on_user_turn_completed_def split_beta)
  moreover have "length entries = min 5 (length facts)"
    using list_all2_lengthD [OF entries] by simp
  ultimately show ?thesis using pre post by blast
qed

text \<open>The service returns six facts; five messages are appended, one per fact.\<close>

theorem fact_messages_witness:
  "\<exists>pre post err.
     fst (on_user_turn_completed
            \<lparr>py_repr = (\<lambda>_. []), py_format = (\<lambda>_ _. Inl TypeError), json_dumps = (\<lambda>_. []),
             json_loads = (\<lambda>_. Inl JSONDecodeError)\<rparr>
            \<lparr>convex = \<lparr>base_url = ''https://haus.convex.site''\<rparr>, user_id = JStr ''u1''\<rparr>
            \<lparr>respond = (\<lambda>_ _. Response 200 (Some (JObj
               [(''facts'', JArr
                  [JObj [(''fact'', JStr ''Has a dog''), (''confidence'', JInt 95)],
                   JObj [(''fact'', JStr ''Works in the CBD''), (''confidence'', JInt 90)],
                   JObj [(''fact'', JStr ''Wants a garden''), (''confidence'', JInt 80)],
                   JObj [(''fact'', JStr ''Needs parking''), (''confidence'', JInt 75)],
                   JObj [(''fact'', JStr ''Likes cafes''), (''confidence'', JInt 60)],
                   JObj [(''fact'', JStr ''Surfs''), (''confidence'', JInt 55)]])]))),
             sent = []\<rparr>
            []
            \<lparr>role = ''user'', text_content = Some ''Any ideas?''\<rparr>) =
       (pre
        @ [\<lparr>role = ''assistant'', text_content = Some ''Remembered: Has a dog (confidence: 95%)''\<rparr>,
           \<lparr>role = ''assistant'',
            text_content = Some ''Remembered: Works in the CBD (confidence: 90%)''\<rparr>,
           \<lparr>role = ''assistant'',
            text_content = Some ''Remembered: Wants a garden (confidence: 80%)''\<rparr>,
           \<lparr>role = ''assistant'',
            text_content = Some ''Remembered: Needs parking (confidence: 75%)''\<rparr>,
           \<lparr>role = ''assistant'',
            text_content = Some ''Remembered: Likes cafes (confidence: 60%)''\<rparr>]
        @ post, err)
     \<and> (\<forall>m\<in>set pre. \<exists>t. text_content m = Some (''User's suburb preferences: '' @ t))
     \<and> (\<forall>m\<in>set post. \<exists>t. text_content m = Some (''User recently viewed: '' @ t))"
proof -
  let ?facts =
    "[JObj [(''fact'', JStr ''Has a dog''), (''confidence'', JInt 95)],
      JObj [(''fact'', JStr ''Works in the CBD''), (''confidence'', JInt 90)],
      JObj [(''fact'', JStr ''Wants a garden''), (''confidence'', JInt 80)],
      JObj [(''fact'', JStr ''Needs parking''), (''confidence'', JInt 75)],
      JObj [(''fact'', JStr ''Likes cafes''), (''confidence'', JInt 60)],
      JObj [(''fact'', JStr ''Surfs''), (''confidence'', JInt 55)]]"
  let ?entries =
    "[(JStr ''Has a dog'', JInt 95), (JStr ''Works in the CBD'', JInt 90),
      (JStr ''Wants a garden'', JInt 80), (JStr ''Needs parking'', JInt 75),
      (JStr ''Likes cafes'', JInt 60)]"
  let ?L = "\<lparr>py_repr = (\<lambda>_. []), py_format = (\<lambda>_ _. Inl TypeError), json_dumps = (\<lambda>_. []),
             json_loads = (\<lambda>_. Inl JSONDecodeError)\<rparr>"
  let ?A = "\<lparr>convex = \<lparr>base_url = ''https://haus.convex.site''\<rparr>, user_id = JStr ''u1''\<rparr>"
  let ?w = "\<lparr>respond = (\<lambda>_ _. Response 200 (Some (JObj [(''facts'', JArr ?facts)]))),
             sent = []\<rparr>"
  let ?msg = "\<lparr>role = ''user'', text_content = Some ''Any ideas?''\<rparr>"
  have recall: "fst (recall_context (convex ?A) ?w (user_id ?A) (or_str (text_content ?msg) []) 10)
                  = JObj [(''facts'', JArr ?facts)]"
    by (simp add: recall_context_def client_defs)
  have facts: "map_of [(''facts'', JArr ?facts)] ''facts'' = Some (JArr ?facts)"
    by simp
  have nonempty: "?facts \<noteq> []" by simp
  have entries: "list_all2 (\<lambda>f (t, c). subscript f ''fact'' = Inr t
                                 \<and> subscript f ''confidence'' = Inr c)
                      (take 5 ?facts) ?entries"
    by (simp add: subscript_def)
  have suburbs: "snd (inject_suburb_preferences ?L (JObj [(''facts'', JArr ?facts)]) []) = None"
    by (simp add: inject_suburb_preferences_def dict_get_def py_truthy_def)
  show ?thesis
    using fact_messages [OF recall facts nonempty entries suburbs]
    by (auto simp: py_str_def eval_digits)
qed

section \<open>remember_preference\<close>

text \<open>\<^verbatim>\<open>split\<close> always returns at least one piece, so \<^verbatim>\<open>parts[0]\<close> never raises.\<close>

lemma py_split_not_Nil: "py_split sep s \<noteq> []"
  by (induction s) (auto split: list.splits)

lemma add_suburb_metadata_total:
  "\<exists>md. add_suburb_metadata metadata category preference = Inr md"
proof (cases "py_split '', '' preference")
  case Nil
  then show ?thesis using py_split_not_Nil by blast
next
  case (Cons p ps)
  then show ?thesis
    by (simp add: add_suburb_metadata_def index_def try_bind_def Let_def)
qed

text \<open>
  Lines 372 to 379 taken alone split the two preferences as intended: the suburb is
  \<open>Bondi\<close> and the state is \<open>NSW\<close>, given or by default.
\<close>

lemma add_suburb_metadata_examples:
  "add_suburb_metadata [(''mentionedInQuery'', m)] ''suburb'' ''Bondi, NSW'' =
     Inr (JObj [(''mentionedInQuery'', m), (''suburbName'', JStr ''Bondi''),
                (''state'', JStr ''NSW''), (''reason'', JStr ''User stated this directly'')])"
  "add_suburb_metadata [(''mentionedInQuery'', m)] ''suburb'' ''Bondi'' =
     Inr (JObj [(''mentionedInQuery'', m), (''suburbName'', JStr ''Bondi''),
                (''state'', JStr ''NSW''), (''reason'', JStr ''User stated this directly'')])"
  by (simp_all add: add_suburb_metadata_def index_def try_bind_def Let_def)

text \<open>A failed request makes \<^verbatim>\<open>store_preference\<close> return \<^verbatim>\<open>False\<close>.\<close>

lemma store_preference_http_failure:
  assumes "respond w (sent w)
             \<lparr>url = base_url C @ ''/api/cortex/store-preference'',
              payload = JObj [(''userId'', uid), (''category'', JStr category),
                              (''preference'', JStr preference),
                              (''confidence'', JInt confidence),
                              (''metadata'', metadata)]\<rparr> = outcome"
      and "outcome = NoResponse
           \<or> (\<exists>status body. outcome = Response status body
                \<and> (status < 200 \<or> 299 < status \<or> body = None))"
  shows "fst (store_preference C w uid category preference confidence metadata) = JBool False"
  using assms
  by (auto simp: store_preference_def post_def success_flag_def checked_json_def try_bind_def
        raise_for_status_def response_json_def)

text \<open>
  Lines 381 to 393 taken alone: one request is sent, carrying the confidence; a true
  result gives the confirmation, a false result of this very call gives the fixed
  sentence, and neither raises.
\<close>

lemma store_and_reply_request:
  "sent (snd (store_and_reply A w category preference is_positive confidence metadata)) =
     sent w @ [\<lparr>url = base_url (convex A) @ ''/api/cortex/store-preference'',
                payload = JObj [(''userId'', user_id A), (''category'', JStr category),
                                (''preference'', JStr preference),
                                (''confidence'', JInt confidence),
                                (''metadata'', metadata)]\<rparr>]"
  by (simp add: store_and_reply_def store_preference_def post_def split_beta)

lemma store_and_reply_success:
  "py_truthy (fst (store_preference (convex A) w (user_id A) category preference
                     confidence metadata)) \<Longrightarrow>
   fst (store_and_reply A w category preference is_positive confidence metadata) =
     Inr (''Got it! I'll remember you '' @ (if is_positive then ''love'' else ''prefer to avoid'')
          @ '' '' @ preference @ '' for future searches.'')"
  by (simp add: store_and_reply_def split_beta)

lemma store_and_reply_failure:
  "\<not> py_truthy (fst (store_preference (convex A) w (user_id A) category preference
                       confidence metadata)) \<Longrightarrow>
   fst (store_and_reply A w category preference is_positive confidence metadata) =
     Inr (''I had trouble saving that preference, ''
          @ ''but I'll keep it in mind for this conversation.'')"
  by (simp add: store_and_reply_def split_beta)

text \<open>
  Line 369 reads \<^verbatim>\<open>context.session.chat_context\<close>, which the session does not have. The
  exception leaves the tool: nothing is split, no request is sent, no reply is returned.
\<close>

lemma mentioned_in_query_raises: "mentioned_in_query session = Inl AttributeError"
  by (simp add: mentioned_in_query_def session_getattr_def try_bind_def)

lemma remember_preference_attribute_error:
  "remember_preference A w session category preference is_positive = (Inl AttributeError, w)"
  by (simp add: remember_preference_def preference_metadata_def mentioned_in_query_raises
        try_bind_def)

text \<open>
  Claim C6. With the category \<open>suburb\<close>, the preferences \<open>Bondi, NSW\<close> and \<open>Bondi\<close> should
  reach the memory service with the metadata \<open>suburbName = Bondi\<close> and \<open>state = NSW\<close>.
  The tool raises \<^verbatim>\<open>AttributeError\<close> on line 369, before the preference is split, and
  leaves the world unchanged: no metadata is passed on for either preference.
\<close>

theorem suburb_preference_not_decomposed:
  "remember_preference A w session ''suburb'' ''Bondi, NSW'' is_positive
     = (Inl AttributeError, w)
   \<and> remember_preference A w session ''suburb'' ''Bondi'' is_positive
     = (Inl AttributeError, w)"
  by (simp add: remember_preference_attribute_error)

text \<open>
  Claim C7. With \<^verbatim>\<open>is_positive\<close> true the tool should pass confidence 80 to
  \<^verbatim>\<open>store_preference\<close> and return the confirmation framed with \<open>love\<close> on success, and
  with \<^verbatim>\<open>is_positive\<close> false pass 70 and frame it with \<open>prefer to avoid\<close>. Against a
  service that reports success, the tool raises \<^verbatim>\<open>AttributeError\<close> for both values and
  the list of requests sent stays empty.
\<close>

theorem no_confidence_request_sent:
  "remember_preference
     \<lparr>convex = \<lparr>base_url = ''https://haus.convex.site''\<rparr>, user_id = JStr ''u1''\<rparr>
     \<lparr>respond = (\<lambda>_ _. Response 200 (Some (JObj [(''success'', JBool True)]))), sent = []\<rparr>
     \<lparr>history = [\<lparr>role = ''user'', text_content = Some ''I like townhouses''\<rparr>]\<rparr>
     ''property_type'' ''townhouses'' True
   = (Inl AttributeError,
      \<lparr>respond = (\<lambda>_ _. Response 200 (Some (JObj [(''success'', JBool True)]))), sent = []\<rparr>)
   \<and> remember_preference
     \<lparr>convex = \<lparr>base_url = ''https://haus.convex.site''\<rparr>, user_id = JStr ''u1''\<rparr>
     \<lparr>respond = (\<lambda>_ _. Response 200 (Some (JObj [(''success'', JBool True)]))), sent = []\<rparr>
     \<lparr>history = [\<lparr>role = ''user'', text_content = Some ''I like townhouses''\<rparr>]\<rparr>
     ''property_type'' ''townhouses'' False
   = (Inl AttributeError,
      \<lparr>respond = (\<lambda>_ _. Response 200 (Some (JObj [(''success'', JBool True)]))), sent = []\<rparr>)"
  by (simp add: remember_preference_attribute_error)

text \<open>
  Claim C9. When \<^verbatim>\<open>store_preference\<close> fails, the tool should return the fixed sentence
  that the preference is kept in mind for this conversation, and raise nothing.
  Against a service that answers every request with status 500, the tool raises
  \<^verbatim>\<open>AttributeError\<close> instead of returning the sentence; \<^verbatim>\<open>store_preference\<close> is not reached.
\<close>

theorem backend_failure_not_degraded:
  "remember_preference
     \<lparr>convex = \<lparr>base_url = ''https://haus.convex.site''\<rparr>, user_id = JStr ''u1''\<rparr>
     \<lparr>respond = (\<lambda>_ _. Response 500 None), sent = []\<rparr>
     \<lparr>history = [\<lparr>role = ''user'', text_content = Some ''I like Bondi''\<rparr>]\<rparr>
     ''suburb'' ''Bondi, NSW'' True
   = (Inl AttributeError, \<lparr>respond = (\<lambda>_ _. Response 500 None), sent = []\<rparr>)
   \<and> fst (remember_preference
     \<lparr>convex = \<lparr>base_url = ''https://haus.convex.site''\<rparr>, user_id = JStr ''u1''\<rparr>
     \<lparr>respond = (\<lambda>_ _. Response 500 None), sent = []\<rparr>
     \<lparr>history = [\<lparr>role = ''user'', text_content = Some ''I like Bondi''\<rparr>]\<rparr>
     ''suburb'' ''Bondi, NSW'' True)
   \<noteq> Inr (''I had trouble saving that preference, ''
          @ ''but I'll keep it in mind for this conversation.'')"
  by (simp add: remember_preference_attribute_error)

section \<open>get_property_details\<close>

text \<open>
  Claim C8. For \<open>prop-001\<close> the text returned holds the address, the price as
  \<open>1,500,000\<close>, and the first three of the four features separated by a comma and a
  space. For an identifier that is not in the table the text is the apology with the
  identifier in it, and the world is unchanged: no request is sent.
\<close>

theorem get_property_details_text:
  "fst (get_property_details L A w ''prop-001'') =
     Inr (''42 Ocean Street, Bondi Beach NSW 2026'' @ [CHR 0x0A]
          @ ''Price: $1,500,000'' @ [CHR 0x0A]
          @ ''3 bed, 2 bath, 1 parking'' @ [CHR 0x0A]
          @ ''Built: 2020'' @ [CHR 0x0A, CHR 0x0A]
          @ ''Features: Ocean views, Modern kitchen, Air conditioning'' @ [CHR 0x0A, CHR 0x0A]
          @ ''Stunning modern home with breathtaking ocean views. ''
          @ ''Recently renovated with premium finishes throughout.'')
   \<and> (map_of properties property_id = None \<longrightarrow>
        get_property_details L A w property_id =
          (Inr (''Sorry, I couldn't find details for property '' @ property_id @ ''.''), w))"
  by (simp add: get_property_details_def properties_def details_def subscript_def try_bind_def
        format_comma_def slice_items_def py_str_def py_truthy_def Let_def eval_digits)

theorem get_property_details_text_witness:
  "map_of properties ''unknown-id'' = None
   \<and> get_property_details
        \<lparr>py_repr = (\<lambda>_. []), py_format = (\<lambda>_ _. Inl TypeError), json_dumps = (\<lambda>_. []),
         json_loads = (\<lambda>_. Inl JSONDecodeError)\<rparr>
        \<lparr>convex = \<lparr>base_url = ''https://haus.convex.site''\<rparr>, user_id = JStr ''u1''\<rparr>
        \<lparr>respond = (\<lambda>_ _. Response 200 (Some (JObj [(''success'', JBool True)]))), sent = []\<rparr>
        ''unknown-id'' =
       (Inr ''Sorry, I couldn't find details for property unknown-id.'',
        \<lparr>respond = (\<lambda>_ _. Response 200 (Some (JObj [(''success'', JBool True)]))), sent = []\<rparr>)"
  using get_property_details_text
          [where property_id = "''unknown-id''"
             and L = "\<lparr>py_repr = (\<lambda>_. []), py_format = (\<lambda>_ _. Inl TypeError),
                       json_dumps = (\<lambda>_. []), json_loads = (\<lambda>_. Inl JSONDecodeError)\<rparr>"
             and A = "\<lparr>convex = \<lparr>base_url = ''https://haus.convex.site''\<rparr>,
                       user_id = JStr ''u1''\<rparr>"
             and w = "\<lparr>respond = (\<lambda>_ _. Response 200 (Some (JObj [(''success'', JBool True)]))),
                       sent = []\<rparr>"]
  by (simp add: properties_def)

section \<open>Identity of the caller\<close>

text \<open>
  Claim C10. When the job metadata decodes to a dictionary whose \<^verbatim>\<open>userId\<close> is the
  empty string, the identity is resolved as if there were no metadata: it is the room
  name when that is a string that is not empty, and \<open>anonymous\<close> when the room name is
  empty or absent.
\<close>

theorem empty_user_id_skipped:
  assumes "metadata \<noteq> []" and "json_loads L metadata = Inr (JObj kvs)"
      and "map_of kvs ''userId'' = Some (JStr [])"
  shows "haus_agent_user_id L (Some metadata) room_name = haus_agent_user_id L None room_name
       \<and> (r \<noteq> [] \<longrightarrow> haus_agent_user_id L (Some metadata) (JStr r) = Inr (JStr r))
       \<and> haus_agent_user_id L (Some metadata) (JStr []) = Inr (JStr ''anonymous'')
       \<and> haus_agent_user_id L (Some metadata) JNull = Inr (JStr ''anonymous'')"
  using assms
  by (simp add: haus_agent_user_id_def try_bind_def dict_get_def py_or_def py_truthy_def)

theorem empty_user_id_skipped_witness:
  \<open>haus_agent_user_id
      \<lparr>py_repr = (\<lambda>_. []), py_format = (\<lambda>_ _. Inl TypeError), json_dumps = (\<lambda>_. []),
       json_loads = (\<lambda>s. if s = ''{"userId": ""}'' then Inr (JObj [(''userId'', JStr [])])
                          else Inl JSONDecodeError)\<rparr>
      (Some ''{"userId": ""}'') (JStr ''room42'') = Inr (JStr ''room42'')
   \<and> haus_agent_user_id
      \<lparr>py_repr = (\<lambda>_. []), py_format = (\<lambda>_ _. Inl TypeError), json_dumps = (\<lambda>_. []),
       json_loads = (\<lambda>s. if s = ''{"userId": ""}'' then Inr (JObj [(''userId'', JStr [])])
                          else Inl JSONDecodeError)\<rparr>
      (Some ''{"userId": ""}'') (JStr []) = Inr (JStr ''anonymous'')
   \<and> haus_agent_user_id
      \<lparr>py_repr = (\<lambda>_. []), py_format = (\<lambda>_ _. Inl TypeError), json_dumps = (\<lambda>_. []),
       json_loads = (\<lambda>s. if s = ''{"userId": ""}'' then Inr (JObj [(''userId'', JStr [])])
                          else Inl JSONDecodeError)\<rparr>
      (Some ''{"userId": ""}'') JNull = Inr (JStr ''anonymous'')\<close>
proof -
  let ?L = \<open>\<lparr>py_repr = (\<lambda>_. []), py_format = (\<lambda>_ _. Inl TypeError), json_dumps = (\<lambda>_. []),
       json_loads = (\<lambda>s. if s = ''{"userId": ""}'' then Inr (JObj [(''userId'', JStr [])])
                          else Inl JSONDecodeError)\<rparr>\<close>
  let ?metadata = \<open>''{"userId": ""}''\<close>
  have nonempty: "?metadata \<noteq> []" by simp
  have loads: "json_loads ?L ?metadata = Inr (JObj [(''userId'', JStr [])])" by simp
  have uid: "map_of [(''userId'', JStr [])] ''userId'' = Some (JStr [])" by simp
  have room: "''room42'' \<noteq> []" by simp
  from empty_user_id_skipped [OF nonempty loads uid, where r = "''room42''" and room_name = JNull]
    room
  show ?thesis by blast
qed

end
